theory Spec2Isabelle
  imports Main
begin

section \<open>The GitHub Actions integration of Universum\<close>

text \<open>
  A shallow embedding of \<^verbatim>\<open>universum/modules/vcs/github_actions_vcs.py\<close>, class
  \<^verbatim>\<open>GithubActionsMainVcs\<close>. Python strings are lists of characters with code points below
  256; dictionaries are association lists in insertion order, looked up with \<open>map_of\<close>.
\<close>

subsection \<open>Values, errors and subscripts\<close>

text \<open>
  What \<^verbatim>\<open>json.loads\<close> returns: \<^verbatim>\<open>None\<close>, a bool, an int, a float (kept as its literal),
  a string, a list or a dict. The findings of a code report are dictionaries of the same kind.
\<close>

datatype json =
    JNull
  | JBool bool
  | JInt int
  | JFloat string
  | JString string
  | JArray "json list"
  | JObject "(string \<times> json) list"

text \<open>
  The exceptions that leave the methods modelled here. \<open>KeyError k\<close> is a dictionary without
  key \<open>k\<close>; \<open>TypeError\<close> is a string subscript of a value that is not a dictionary;
  \<open>ValueError\<close> comes from \<^verbatim>\<open>urllib.parse.urlsplit\<close>; \<open>RequestError\<close> is whatever
  \<^verbatim>\<open>utils.make_request\<close> raises.
\<close>

datatype error =
    ConfigurationError string
  | KeyError string
  | TypeError
  | ValueError string
  | RequestError string

text \<open>Python's \<^verbatim>\<open>v[k]\<close> for a string key \<open>k\<close>.\<close>

fun getitem :: "json \<Rightarrow> string \<Rightarrow> error + json" where
  "getitem (JObject kvs) k = (case map_of kvs k of None \<Rightarrow> Inl (KeyError k) | Some v \<Rightarrow> Inr v)"
| "getitem _ k = Inl TypeError"

text \<open>A chain of subscripts \<^verbatim>\<open>v[k1][k2]...\<close>, evaluated left to right.\<close>

fun subscripts :: "json \<Rightarrow> string list \<Rightarrow> error + json" where
  "subscripts v [] = Inr v"
| "subscripts v (k # ks) = (case getitem v k of Inl e \<Rightarrow> Inl e | Inr w \<Rightarrow> subscripts w ks)"

definition has_field :: "json \<Rightarrow> string list \<Rightarrow> bool" where
  "has_field v ks = (case subscripts v ks of Inl _ \<Rightarrow> False | Inr _ \<Rightarrow> True)"

fun subscript_error :: "error \<Rightarrow> bool" where
  "subscript_error (KeyError _) = True"
| "subscript_error TypeError = True"
| "subscript_error _ = False"

subsection \<open>The object and its construction\<close>

record github_actions_main_vcs =
  settings_token :: string
  settings_repo :: json
  settings_refspec :: json
  payload :: string
  payload_json :: json

text \<open>
  A call of \<^verbatim>\<open>utils.make_request\<close>, with the arguments \<^verbatim>\<open>_report\<close> gives it. The URL is
  whatever value the payload holds under the endpoint's key.
\<close>

record request =
  request_url :: json
  request_method :: string
  json_body :: json
  headers :: "(string \<times> string) list"
  timeout :: nat

text \<open>
  Methods run against the list of requests made so far and return it extended, with the
  value or the exception they end with.
\<close>

type_synonym 'a outcome = "(error + 'a) \<times> request list"

text \<open>The message of lines 61 and 62, around the text of the decode error.\<close>

definition error_message :: "string \<Rightarrow> string" where
  "error_message detail =
     ''Provided payload value could not been parsed as JSON and returned the following error:''
       @ [CHR 0x0A] @ '' '' @ detail"

text \<open>
  Modelled from the spec: \<^verbatim>\<open>self.error\<close>, a method of a base class that is not among the
  sources at hand. By the specification a payload that is not JSON makes construction fail
  with a configuration error that carries the text of the decode error.
\<close>

definition raise_error :: "string \<Rightarrow> error" where
  "raise_error message = ConfigurationError message"

text \<open>
  The constructor from line 56 on, given the token and the payload text that the option
  checks before it deliver. \<open>json_loads\<close> is \<^verbatim>\<open>json.loads\<close>: \<open>Inl\<close> the text of its
  \<^verbatim>\<open>JSONDecodeError\<close>, \<open>Inr\<close> the parsed document. Only the decode error is caught; a
  failed subscript leaves the constructor as it is.
\<close>

definition GithubActionsMainVcs_init ::
  "(string \<Rightarrow> string + json) \<Rightarrow> string \<Rightarrow> string \<Rightarrow> request list
     \<Rightarrow> github_actions_main_vcs outcome" where
  "GithubActionsMainVcs_init json_loads tok pl sent =
     (case json_loads pl of
        Inl detail \<Rightarrow> (Inl (raise_error (error_message detail)), sent)
      | Inr pj \<Rightarrow>
          (case subscripts pj [''repository'', ''html_url''] of
             Inl e \<Rightarrow> (Inl e, sent)
           | Inr r \<Rightarrow>
               (case subscripts pj [''pull_request'', ''head'', ''ref''] of
                  Inl e \<Rightarrow> (Inl e, sent)
                | Inr rf \<Rightarrow>
                    (Inr \<lparr>settings_token = tok, settings_repo = r, settings_refspec = rf,
                          payload = pl, payload_json = pj\<rparr>, sent))))"

subsection \<open>Queries\<close>

definition get_review_link :: "github_actions_main_vcs \<Rightarrow> error + json" where
  "get_review_link self = subscripts (payload_json self) [''pull_request'', ''html_url'']"

definition is_latest_version :: "github_actions_main_vcs \<Rightarrow> bool" where
  "is_latest_version self = True"

subsection \<open>Reporting\<close>

text \<open>
  \<^verbatim>\<open>_report\<close>: one POST through \<^verbatim>\<open>utils.make_request\<close>, which is a parameter here
  (\<open>None\<close> when it returns, \<open>Some e\<close> when it raises). The request is counted as made
  either way.
\<close>

definition do_report ::
  "(request \<Rightarrow> error option) \<Rightarrow> github_actions_main_vcs \<Rightarrow> json \<Rightarrow> json \<Rightarrow> request list
     \<Rightarrow> unit outcome" where
  "do_report make_request self u req sent =
     (let r = \<lparr>request_url = u, request_method = ''POST'', json_body = req,
                headers = [(''Accept'', ''application/vnd.github+json''),
                           (''Authorization'', ''Bearer '' @ settings_token self)],
                timeout = 5 * 60\<rparr>
      in (case make_request r of None \<Rightarrow> Inr () | Some e \<Rightarrow> Inl e, sent @ [r]))"

text \<open>Python's \<^verbatim>\<open>s.split(c)\<close> for a one-character separator.\<close>

fun split_char :: "char \<Rightarrow> string \<Rightarrow> string list" where
  "split_char c [] = [] # []"
| "split_char c (x # xs) =
     (if x = c then [] # split_char c xs
      else (case split_char c xs of [] \<Rightarrow> [x] # [] | l # ls \<Rightarrow> (x # l) # ls))"

text \<open>
  Line 97: the lines of the output of \<^verbatim>\<open>git show --name-only --oneline\<close> after the first.
  The output of the git client is a parameter.
\<close>

definition commit_files :: "string \<Rightarrow> string list" where
  "commit_files show_output = tl (split_char (CHR 0x0A) show_output)"

text \<open>Lines 104 to 110, for one finding of one path.\<close>

definition report_issue ::
  "(request \<Rightarrow> error option) \<Rightarrow> github_actions_main_vcs \<Rightarrow> string \<Rightarrow> json \<Rightarrow> request list
     \<Rightarrow> unit outcome" where
  "report_issue make_request self path issue sent =
     (case subscripts (payload_json self) [''pull_request'', ''head'', ''sha''] of
        Inl e \<Rightarrow> (Inl e, sent)
      | Inr sha \<Rightarrow>
     (case getitem issue ''message'' of
        Inl e \<Rightarrow> (Inl e, sent)
      | Inr msg \<Rightarrow>
     (case getitem issue ''line'' of
        Inl e \<Rightarrow> (Inl e, sent)
      | Inr ln \<Rightarrow>
     (case subscripts (payload_json self) [''pull_request'', ''review_comments_url''] of
        Inl e \<Rightarrow> (Inl e, sent)
      | Inr u \<Rightarrow>
          do_report make_request self u
            (JObject [(''path'', JString path), (''commit_id'', sha), (''body'', msg),
                      (''line'', ln), (''side'', JString ''RIGHT'')]) sent))))"

text \<open>The inner loop, over the findings of one path; an exception ends it.\<close>

fun report_issues ::
  "(request \<Rightarrow> error option) \<Rightarrow> github_actions_main_vcs \<Rightarrow> string \<Rightarrow> json list \<Rightarrow> request list
     \<Rightarrow> unit outcome" where
  "report_issues make_request self path [] sent = (Inr (), sent)"
| "report_issues make_request self path (issue # issues) sent =
     (case report_issue make_request self path issue sent of
        (Inl e, sent') \<Rightarrow> (Inl e, sent')
      | (Inr _, sent') \<Rightarrow> report_issues make_request self path issues sent')"

text \<open>The outer loop, over \<^verbatim>\<open>report.items()\<close>.\<close>

fun report_items ::
  "(request \<Rightarrow> error option) \<Rightarrow> github_actions_main_vcs \<Rightarrow> string list
     \<Rightarrow> (string \<times> json list) list \<Rightarrow> request list \<Rightarrow> unit outcome" where
  "report_items make_request self files [] sent = (Inr (), sent)"
| "report_items make_request self files ((path, issues) # items) sent =
     (if path \<in> set files then
        (case report_issues make_request self path issues sent of
           (Inl e, sent') \<Rightarrow> (Inl e, sent')
         | (Inr _, sent') \<Rightarrow> report_items make_request self files items sent')
      else report_items make_request self files items sent)"

definition code_report_to_review ::
  "(request \<Rightarrow> error option) \<Rightarrow> string \<Rightarrow> github_actions_main_vcs
     \<Rightarrow> (string \<times> json list) list \<Rightarrow> request list \<Rightarrow> unit outcome" where
  "code_report_to_review make_request show_output self report sent =
     report_items make_request self (commit_files show_output) report sent"

definition report_start :: "github_actions_main_vcs \<Rightarrow> string \<Rightarrow> request list \<Rightarrow> unit outcome" where
  "report_start self report_text sent = (Inr (), sent)"

text \<open>
  \<^verbatim>\<open>report_result(self, result, report_text=None, no_vote=False)\<close>. The text is \<open>None\<close>
  or a string; \<^verbatim>\<open>not report_text\<close> holds for \<open>None\<close> and for the empty string.
\<close>

definition report_result ::
  "(request \<Rightarrow> error option) \<Rightarrow> github_actions_main_vcs \<Rightarrow> bool \<Rightarrow> string option \<Rightarrow> bool
     \<Rightarrow> request list \<Rightarrow> unit outcome" where
  "report_result make_request self result report_text no_vote sent =
     (let text = (if report_text = None \<or> report_text = Some [] then ''Universum check finished''
                  else the report_text)
      in (case subscripts (payload_json self) [''pull_request'', ''comments_url''] of
            Inl e \<Rightarrow> (Inl e, sent)
          | Inr u \<Rightarrow> do_report make_request self u (JObject [(''body'', JString text)]) sent))"

subsection \<open>The requests a run is expected to make\<close>

text \<open>
  The requests as the specification words them, to compare with what the methods emit.
  \<open>field\<close> reads a key of a finding that has it.
\<close>

definition field :: "json \<Rightarrow> string \<Rightarrow> json" where
  "field v k = (case getitem v k of Inl _ \<Rightarrow> JNull | Inr w \<Rightarrow> w)"

definition post_request :: "github_actions_main_vcs \<Rightarrow> json \<Rightarrow> json \<Rightarrow> request" where
  "post_request self u body =
     \<lparr>request_url = u, request_method = ''POST'', json_body = body,
      headers = [(''Accept'', ''application/vnd.github+json''),
                 (''Authorization'', ''Bearer '' @ settings_token self)],
      timeout = 300\<rparr>"

definition review_comment ::
  "github_actions_main_vcs \<Rightarrow> json \<Rightarrow> json \<Rightarrow> string \<Rightarrow> json \<Rightarrow> request" where
  "review_comment self u sha path issue =
     post_request self u
       (JObject [(''path'', JString path), (''commit_id'', sha),
                 (''body'', field issue ''message''), (''line'', field issue ''line''),
                 (''side'', JString ''RIGHT'')])"

definition summary_comment :: "github_actions_main_vcs \<Rightarrow> json \<Rightarrow> string \<Rightarrow> request" where
  "summary_comment self u text = post_request self u (JObject [(''body'', JString text)])"

text \<open>The entries of a report whose path is among the changed files, in the report's order.\<close>

definition changed_findings ::
  "string list \<Rightarrow> (string \<times> json list) list \<Rightarrow> (string \<times> json list) list" where
  "changed_findings files report = filter (\<lambda>(path, issues). path \<in> set files) report"

text \<open>
  The changed-file set in the specification's words: the first line dropped, the non-empty
  lines that remain.
\<close>

definition changed_file_set_spec :: "string \<Rightarrow> string set" where
  "changed_file_set_spec show_output =
     {l \<in> set (tl (split_char (CHR 0x0A) show_output)). l \<noteq> []}"

subsection \<open>Sample inputs\<close>

definition example_payload :: string where
  \<open>example_payload = ''{"repository":{"html_url":"https://x/y.git"},"pull_request":{"head":{"ref":"feat","sha":"abc123"},"html_url":"https://x/y/pull/1","review_comments_url":"https://api.x/y/pulls/1/comments","comments_url":"https://api.x/y/issues/1/comments"}}''\<close>

definition example_payload_json :: json where
  "example_payload_json =
     JObject [(''repository'', JObject [(''html_url'', JString ''https://x/y.git'')]),
              (''pull_request'',
                 JObject [(''head'', JObject [(''ref'', JString ''feat''),
                                              (''sha'', JString ''abc123'')]),
                          (''html_url'', JString ''https://x/y/pull/1''),
                          (''review_comments_url'', JString ''https://api.x/y/pulls/1/comments''),
                          (''comments_url'', JString ''https://api.x/y/issues/1/comments'')])]"

text \<open>A payload with the two fields the constructor reads and none of the others.\<close>

definition example_bare_payload :: string where
  \<open>example_bare_payload = ''{"repository":{"html_url":"https://x/y.git"},"pull_request":{"head":{"ref":"feat"}}}''\<close>

definition example_bare_json :: json where
  "example_bare_json =
     JObject [(''repository'', JObject [(''html_url'', JString ''https://x/y.git'')]),
              (''pull_request'', JObject [(''head'', JObject [(''ref'', JString ''feat'')])])]"

text \<open>\<^verbatim>\<open>json.loads\<close> on the sample texts; any other text stands for one that does not parse.\<close>

definition example_loads :: "string \<Rightarrow> string + json" where
  "example_loads s =
     (if s = example_payload then Inr example_payload_json
      else if s = example_bare_payload then Inr example_bare_json
      else if s = ''{}'' then Inr (JObject [])
      else Inl ''Expecting property name enclosed in double quotes: line 1 column 2 (char 1)'')"

definition example_self :: github_actions_main_vcs where
  "example_self = \<lparr>settings_token = ''ghs_1'', settings_repo = JString ''https://x/y.git'',
                    settings_refspec = JString ''feat'', payload = example_payload,
                    payload_json = example_payload_json\<rparr>"

definition example_bare_self :: github_actions_main_vcs where
  "example_bare_self = \<lparr>settings_token = ''ghs_1'', settings_repo = JString ''https://x/y.git'',
                    settings_refspec = JString ''feat'', payload = example_bare_payload,
                    payload_json = example_bare_json\<rparr>"

definition example_show_output :: string where
  "example_show_output = ''abc123 fix'' @ [CHR 0x0A] @ ''a.py''"

definition example_report :: "(string \<times> json list) list" where
  "example_report =
     [(''a.py'', [JObject [(''message'', JString ''m''), (''line'', JInt 3)]]),
      (''b.py'', [JObject [(''message'', JString ''n''), (''line'', JInt 1)]])]"

subsection \<open>Clone URLs\<close>




definition scheme_char :: "char \<Rightarrow> bool" where
  "scheme_char c =
     (let n = of_char c :: nat
      in (97 \<le> n \<and> n \<le> 122) \<or> (65 \<le> n \<and> n \<le> 90) \<or> (48 \<le> n \<and> n \<le> 57)
           \<or> c = CHR ''+'' \<or> c = CHR ''-'' \<or> c = CHR ''.'')"







definition netloc_delim :: "char \<Rightarrow> bool" where
  "netloc_delim c = (c = CHR ''/'' \<or> c = CHR ''?'' \<or> c = CHR ''#'')"









subsection \<open>Well-formed URL components\<close>








subsection \<open>Sample collaborators\<close>


definition example_make_request :: "request \<Rightarrow> error option" where
  "example_make_request r = None"


section \<open>Properties of the payload and of reporting\<close>

subsection \<open>Subscripts\<close>

lemma subscripts_error: "subscripts v ks = Inl e \<Longrightarrow> subscript_error e"
proof (induction ks arbitrary: v)
  case Nil
  then show ?case by simp
next
  case (Cons k ks)
  then show ?case by (cases v) (auto split: option.splits sum.splits)
qed

lemma getitem_Inr: "getitem v k = Inr w \<Longrightarrow> \<exists>kvs. v = JObject kvs \<and> map_of kvs k = Some w"
  by (cases v) (auto split: option.splits)

text \<open>Where one key of a value can be read, the value is a dictionary, and a key it lacks is a
  \<open>KeyError\<close>.\<close>

lemma missing_key:
  "has_field v (k # k' # ks) \<Longrightarrow> \<not> has_field v [k, k'']
     \<Longrightarrow> subscripts v [k, k''] = Inl (KeyError k'')"
  by (auto simp: has_field_def split: sum.splits option.splits dest!: getitem_Inr)

lemma missing_key3:
  "has_field v [k, k', k''] \<Longrightarrow> \<not> has_field v [k, k', k3]
     \<Longrightarrow> subscripts v [k, k', k3] = Inl (KeyError k3)"
  by (auto simp: has_field_def split: sum.splits option.splits dest!: getitem_Inr)

lemma init_Inr:
  "GithubActionsMainVcs_init json_loads tok pl sent = (Inr self, sent')
     \<Longrightarrow> json_loads pl = Inr (payload_json self) \<and> sent' = sent
         \<and> has_field (payload_json self) [''repository'', ''html_url'']
         \<and> has_field (payload_json self) [''pull_request'', ''head'', ''ref'']"
  by (auto simp: GithubActionsMainVcs_init_def has_field_def split: sum.splits)

lemma example_init:
  "GithubActionsMainVcs_init example_loads ''ghs_1'' example_payload [] = (Inr example_self, [])"
  by (simp add: GithubActionsMainVcs_init_def example_loads_def example_self_def
        example_payload_json_def)

lemma example_loads_bare: "example_loads example_bare_payload = Inr example_bare_json"
  by (simp add: example_loads_def example_payload_def example_bare_payload_def)

lemma example_bare_init:
  "GithubActionsMainVcs_init example_loads ''ghs_1'' example_bare_payload []
     = (Inr example_bare_self, [])"
  by (simp add: GithubActionsMainVcs_init_def example_loads_bare example_bare_json_def
        example_bare_self_def)

lemma example_commit_files: "commit_files example_show_output = [''a.py'']"
  by (simp add: commit_files_def example_show_output_def)

subsection \<open>Review comments\<close>

lemma do_report_eq:
  "do_report make_request self u body sent =
     (case make_request (post_request self u body) of None \<Rightarrow> Inr () | Some e \<Rightarrow> Inl e,
      sent @ [post_request self u body])"
  by (simp add: do_report_def post_request_def Let_def)

lemma report_issue_ok:
  assumes "subscripts (payload_json self) [''pull_request'', ''head'', ''sha''] = Inr sha"
    and "subscripts (payload_json self) [''pull_request'', ''review_comments_url''] = Inr u"
    and "\<forall>r. make_request r = None"
    and "has_field issue [''message'']" and "has_field issue [''line'']"
  shows "report_issue make_request self path issue sent
           = (Inr (), sent @ [review_comment self u sha path issue])"
  using assms
  by (auto simp: report_issue_def do_report_eq review_comment_def field_def has_field_def
           split: sum.splits)

lemma report_issues_ok:
  assumes "subscripts (payload_json self) [''pull_request'', ''head'', ''sha''] = Inr sha"
    and "subscripts (payload_json self) [''pull_request'', ''review_comments_url''] = Inr u"
    and "\<forall>r. make_request r = None"
    and "\<forall>i \<in> set issues. has_field i [''message''] \<and> has_field i [''line'']"
  shows "report_issues make_request self path issues sent
           = (Inr (), sent @ map (review_comment self u sha path) issues)"
  using assms(4)
proof (induction issues arbitrary: sent)
  case Nil
  show ?case by simp
next
  case (Cons i issues)
  have "report_issue make_request self path i sent
           = (Inr (), sent @ [review_comment self u sha path i])"
    using report_issue_ok[OF assms(1-3)] Cons.prems by simp
  then show ?case using Cons by simp
qed

lemma report_items_ok:
  assumes "subscripts (payload_json self) [''pull_request'', ''head'', ''sha''] = Inr sha"
    and "subscripts (payload_json self) [''pull_request'', ''review_comments_url''] = Inr u"
    and "\<forall>r. make_request r = None"
    and "\<forall>(path, issues) \<in> set (changed_findings files report).
           \<forall>i \<in> set issues. has_field i [''message''] \<and> has_field i [''line'']"
  shows "report_items make_request self files report sent
           = (Inr (), sent @ concat (map (\<lambda>(path, issues).
                                            map (review_comment self u sha path) issues)
                                      (changed_findings files report)))"
  using assms(4)
proof (induction report arbitrary: sent)
  case Nil
  show ?case by (simp add: changed_findings_def)
next
  case (Cons item report)
  obtain path issues where item: "item = (path, issues)" by (cases item)
  have rest: "\<forall>(path, issues) \<in> set (changed_findings files report).
           \<forall>i \<in> set issues. has_field i [''message''] \<and> has_field i [''line'']"
    using Cons.prems by (simp add: changed_findings_def)
  show ?case
  proof (cases "path \<in> set files")
    case True
    have "\<forall>i \<in> set issues. has_field i [''message''] \<and> has_field i [''line'']"
      using Cons.prems True item by (simp add: changed_findings_def)
    then have "report_issues make_request self path issues sent
           = (Inr (), sent @ map (review_comment self u sha path) issues)"
      by (rule report_issues_ok[OF assms(1-3)])
    then show ?thesis using Cons.IH rest True item by (simp add: changed_findings_def)
  next
    case False
    then show ?thesis using Cons.IH rest item by (simp add: changed_findings_def)
  qed
qed

text \<open>
  Claim C1. Let the payload hold a head SHA and a review-comments endpoint, let every request
  be accepted by the transport, and let the findings of changed files carry a message and a
  line. Then \<open>code_report_to_review\<close> ends without an exception, and the requests it adds
  are, in the report's order, exactly one POST to the review-comments endpoint for each
  finding whose path is among the changed files, with body \<open>{path, commit_id, body, line,
  side: RIGHT}\<close>. Findings of other paths add no request and raise nothing, whatever they
  hold.
\<close>

theorem code_report_to_review_posts_changed_findings:
  assumes "subscripts (payload_json self) [''pull_request'', ''head'', ''sha''] = Inr sha"
    and "subscripts (payload_json self) [''pull_request'', ''review_comments_url''] = Inr u"
    and "\<forall>r. make_request r = None"
    and "\<forall>(path, issues) \<in> set (changed_findings (commit_files show_output) report).
           \<forall>i \<in> set issues. has_field i [''message''] \<and> has_field i [''line'']"
  shows "code_report_to_review make_request show_output self report sent
           = (Inr (), sent @ concat (map (\<lambda>(path, issues).
                                            map (review_comment self u sha path) issues)
                                      (changed_findings (commit_files show_output) report)))"
  unfolding code_report_to_review_def by (rule report_items_ok[OF assms])

theorem code_report_to_review_posts_changed_findings_witness:
  "code_report_to_review (\<lambda>r. None) example_show_output example_self example_report []
     = (Inr (), [review_comment example_self (JString ''https://api.x/y/pulls/1/comments'')
                   (JString ''abc123'') ''a.py''
                   (JObject [(''message'', JString ''m''), (''line'', JInt 3)])])"
proof -
  have sha: "subscripts (payload_json example_self) [''pull_request'', ''head'', ''sha'']
               = Inr (JString ''abc123'')"
    by (simp add: example_self_def example_payload_json_def)
  have u: "subscripts (payload_json example_self) [''pull_request'', ''review_comments_url'']
               = Inr (JString ''https://api.x/y/pulls/1/comments'')"
    by (simp add: example_self_def example_payload_json_def)
  have ok: "\<forall>r. (\<lambda>r::request. None::error option) r = None" by simp
  have wf: "\<forall>(path, issues) \<in> set (changed_findings (commit_files example_show_output)
                                       example_report).
           \<forall>i \<in> set issues. has_field i [''message''] \<and> has_field i [''line'']"
    by (simp add: example_commit_files changed_findings_def example_report_def has_field_def)
  show ?thesis
    using code_report_to_review_posts_changed_findings [OF sha u ok wf, of "[]"]
    by (simp add: example_commit_files changed_findings_def example_report_def)
qed

subsection \<open>The changed files\<close>

lemma split_char_lines:
  "c \<notin> set first \<Longrightarrow> \<forall>l \<in> set ls. c \<notin> set l
     \<Longrightarrow> split_char c (first @ concat (map ((#) c) ls)) = first # ls"
proof (induction first)
  case Nil
  then show ?case
  proof (induction ls)
    case Nil
    show ?case by simp
  next
    case (Cons l ls)
    then have tail: "split_char c (concat (map ((#) c) ls)) = [] # ls" by simp
    have "c \<notin> set l" using Cons.prems by simp
    then have "split_char c (l @ concat (map ((#) c) ls)) = l # ls"
      using tail by (induction l) auto
    then show ?case by simp
  qed
next
  case (Cons x first)
  then show ?case by auto
qed

text \<open>
  Claim C6, as the code has it. For a text block made of a first line and further lines, each
  after a newline, the changed files are all the further lines, in their order and with
  their repetitions, the empty ones included: only the first line is dropped.
\<close>

theorem commit_files_all_later_lines:
  "CHR 0x0A \<notin> set first \<Longrightarrow> \<forall>l \<in> set ls. CHR 0x0A \<notin> set l
     \<Longrightarrow> commit_files (first @ concat (map ((#) (CHR 0x0A)) ls)) = ls"
  by (simp add: commit_files_def split_char_lines)

theorem commit_files_all_later_lines_witness:
  "commit_files (''c1 msg'' @ concat (map ((#) (CHR 0x0A)) [''a.py'', [], ''b.py'', ''a.py'']))
     = [''a.py'', [], ''b.py'', ''a.py'']"
  using commit_files_all_later_lines [of "''c1 msg''" "[''a.py'', [], ''b.py'', ''a.py'']"]
  by simp

text \<open>
  Claim C6 as stated fails: an empty line after the first is kept as a file path, so the
  changed files are not the non-empty lines only.
\<close>

theorem commit_files_keeps_empty_line:
  "set (commit_files (''c1 msg'' @ [CHR 0x0A, CHR 0x0A] @ ''a.py''))
     \<noteq> changed_file_set_spec (''c1 msg'' @ [CHR 0x0A, CHR 0x0A] @ ''a.py'')"
proof -
  have "[] \<in> set (commit_files (''c1 msg'' @ [CHR 0x0A, CHR 0x0A] @ ''a.py''))"
    by (simp add: commit_files_def)
  moreover have "[] \<notin> changed_file_set_spec (''c1 msg'' @ [CHR 0x0A, CHR 0x0A] @ ''a.py'')"
    by (simp add: changed_file_set_spec_def)
  ultimately show ?thesis by blast
qed

subsection \<open>The summary comment\<close>

lemma report_result_eq:
  assumes "subscripts (payload_json self) [''pull_request'', ''comments_url''] = Inr u"
  shows "report_result make_request self result report_text no_vote sent
       = (case make_request (summary_comment self u
              (if report_text = None \<or> report_text = Some [] then ''Universum check finished''
               else the report_text)) of None \<Rightarrow> Inr () | Some e \<Rightarrow> Inl e,
          sent @ [summary_comment self u
              (if report_text = None \<or> report_text = Some [] then ''Universum check finished''
               else the report_text)])"
  using assms by (simp add: report_result_def do_report_eq summary_comment_def Let_def)

lemma example_comments_url:
  "subscripts (payload_json example_self) [''pull_request'', ''comments_url'']
     = Inr (JString ''https://api.x/y/issues/1/comments'')"
  by (simp add: example_self_def example_payload_json_def)

text \<open>
  Claim C4, as the code has it. On a payload that holds the summary endpoint,
  \<open>report_result\<close> adds exactly one request, a POST to that endpoint, whatever the changed
  files and whatever the transport answers; its body is the report text when a non-empty
  one was supplied, and the fixed message when none was.
\<close>

theorem report_result_posts_one_summary:
  assumes "subscripts (payload_json self) [''pull_request'', ''comments_url''] = Inr u"
  shows "(\<forall>text. text \<noteq> [] \<longrightarrow>
            snd (report_result make_request self result (Some text) no_vote sent)
              = sent @ [summary_comment self u text])
       \<and> snd (report_result make_request self result None no_vote sent)
              = sent @ [summary_comment self u ''Universum check finished'']"
  by (simp add: report_result_eq[OF assms])

theorem report_result_posts_one_summary_witness:
  "snd (report_result (\<lambda>r. None) example_self True (Some ''X'') False [])
     = [summary_comment example_self (JString ''https://api.x/y/issues/1/comments'') ''X'']
   \<and> snd (report_result (\<lambda>r. None) example_self True None False [])
     = [summary_comment example_self (JString ''https://api.x/y/issues/1/comments'')
          ''Universum check finished'']"
  using report_result_posts_one_summary [OF example_comments_url, of "\<lambda>r. None" True False "[]"]
  by simp

text \<open>
  Claim C4 as stated fails where the supplied report text is the empty string: the body of
  the request is then not the supplied text.
\<close>

theorem report_result_empty_text_not_sent:
  "snd (report_result example_make_request example_self True (Some []) False [])
     \<noteq> [summary_comment example_self (JString ''https://api.x/y/issues/1/comments'') []]"
  by (simp add: report_result_def example_self_def example_payload_json_def do_report_def
        summary_comment_def post_request_def example_make_request_def)

text \<open>
  Claim C8. Two calls of \<open>report_result\<close> that differ in the no-vote flag only end the same
  way with the same requests made.
\<close>

theorem report_result_ignores_no_vote:
  "report_result make_request self result report_text True sent
     = report_result make_request self result report_text False sent"
  by (simp add: report_result_def)

text \<open>
  Claim C9. An empty report text has the effect of no report text: the two calls are equal,
  and on a payload with the summary endpoint the request carries the fixed message.
\<close>

theorem report_result_empty_text_is_default:
  "report_result make_request self result (Some []) no_vote sent
     = report_result make_request self result None no_vote sent
   \<and> (\<forall>u. subscripts (payload_json self) [''pull_request'', ''comments_url''] = Inr u \<longrightarrow>
         snd (report_result make_request self result (Some []) no_vote sent)
              = sent @ [summary_comment self u ''Universum check finished''])"
  by (auto simp: report_result_eq) (simp add: report_result_def)

theorem report_result_empty_text_is_default_witness:
  "snd (report_result (\<lambda>r. None) example_self True (Some []) False [])
     = [summary_comment example_self (JString ''https://api.x/y/issues/1/comments'')
          ''Universum check finished'']"
  using report_result_empty_text_is_default
          [of "\<lambda>r. None" example_self True False "[]", THEN conjunct2]
        example_comments_url
  by (simp del: subscripts.simps)

subsection \<open>Construction and the shape of the payload\<close>

text \<open>
  Claim C5. A payload that \<^verbatim>\<open>json.loads\<close> rejects makes construction end with a
  configuration error whose message ends with the text of the decode error; no other
  exception leaves the constructor and no request is made.
\<close>

theorem init_invalid_json_configuration_error:
  assumes "json_loads pl = Inl detail"
  shows "GithubActionsMainVcs_init json_loads tok pl sent
           = (Inl (ConfigurationError (error_message detail)), sent)
       \<and> (\<exists>prefix. error_message detail = prefix @ detail)"
  using assms by (simp add: GithubActionsMainVcs_init_def raise_error_def error_message_def)

theorem init_invalid_json_configuration_error_witness:
  "GithubActionsMainVcs_init example_loads ''ghs_1'' ''{not json'' []
     = (Inl (ConfigurationError (error_message
          ''Expecting property name enclosed in double quotes: line 1 column 2 (char 1)'')), [])"
proof -
  have "example_loads ''{not json''
          = Inl ''Expecting property name enclosed in double quotes: line 1 column 2 (char 1)''"
    by (simp add: example_loads_def example_payload_def example_bare_payload_def)
  from init_invalid_json_configuration_error
         [where json_loads = example_loads and pl = "''{not json''" and tok = "''ghs_1''"
            and sent = "[]", OF this]
  show ?thesis by simp
qed

text \<open>
  Claim C7. On a constructed object, whose payload is the parsed payload text,
  \<open>get_review_link\<close> returns the value under \<open>pull_request.html_url\<close> where the payload
  has one, and raises \<open>KeyError\<close> for that key where it has none.
\<close>

theorem get_review_link_html_url:
  assumes "GithubActionsMainVcs_init json_loads tok pl sent = (Inr self, sent')"
  shows "json_loads pl = Inr (payload_json self)
       \<and> (\<forall>v. subscripts (payload_json self) [''pull_request'', ''html_url''] = Inr v
              \<longrightarrow> get_review_link self = Inr v)
       \<and> (\<not> has_field (payload_json self) [''pull_request'', ''html_url'']
              \<longrightarrow> get_review_link self = Inl (KeyError ''html_url''))"
  using init_Inr[OF assms]
    missing_key[of "payload_json self" "''pull_request''" "''head''" "[''ref'']" "''html_url''"]
  by (simp add: get_review_link_def)

theorem get_review_link_html_url_witness:
  "get_review_link example_self = Inr (JString ''https://x/y/pull/1'')
   \<and> get_review_link example_bare_self = Inl (KeyError ''html_url'')"
  using get_review_link_html_url [OF example_init] get_review_link_html_url [OF example_bare_init]
  by (simp add: example_self_def example_bare_self_def example_payload_json_def
        example_bare_json_def has_field_def)

lemma report_issue_no_sha:
  "subscripts (payload_json self) [''pull_request'', ''head'', ''sha''] = Inl e
     \<Longrightarrow> report_issue make_request self path issue sent = (Inl e, sent)"
  by (simp add: report_issue_def)

lemma report_issue_no_url:
  assumes "subscripts (payload_json self) [''pull_request'', ''review_comments_url''] = Inl e"
  shows "\<exists>e'. report_issue make_request self path issue sent = (Inl e', sent)
               \<and> subscript_error e'"
proof -
  have "subscript_error e" using assms by (rule subscripts_error)
  moreover have "\<And>e'. getitem issue k = Inl e' \<Longrightarrow> subscript_error e'" for k
    using subscripts_error[of issue "[k]"] by (simp split: sum.splits)
  moreover have "\<And>e'. subscripts (payload_json self) [''pull_request'', ''head'', ''sha'']
                          = Inl e' \<Longrightarrow> subscript_error e'"
    by (rule subscripts_error)
  ultimately show ?thesis
    using assms unfolding report_issue_def
    by (simp split: sum.splits del: subscripts.simps)
qed

text \<open>Where every finding raises before its request, the first finding of a changed file
  ends the run with nothing sent.\<close>

lemma report_items_raises:
  assumes first: "\<And>path issue. \<exists>e. report_issue make_request self path issue sent
                                        = (Inl e, sent) \<and> P e"
    and some: "\<exists>(path, issues) \<in> set report. path \<in> set files \<and> issues \<noteq> []"
  shows "\<exists>e. report_items make_request self files report sent = (Inl e, sent) \<and> P e"
  using some
proof (induction report)
  case Nil
  then show ?case by simp
next
  case (Cons item report)
  obtain path issues where item: "item = (path, issues)" by (cases item)
  show ?case
  proof (cases "path \<in> set files \<and> issues \<noteq> []")
    case True
    then obtain i rest where issues: "issues = i # rest" by (cases issues) auto
    obtain e where "report_issue make_request self path i sent = (Inl e, sent)" "P e"
      using first by blast
    then show ?thesis using True item issues by auto
  next
    case False
    then have "\<exists>(path, issues) \<in> set report. path \<in> set files \<and> issues \<noteq> []"
      using Cons.prems item by auto
    then obtain e where "report_items make_request self files report sent = (Inl e, sent)" "P e"
      using Cons.IH by blast
    then show ?thesis using False item by (cases "issues = []") auto
  qed
qed

text \<open>
  Claim C10. For a payload that parses: without \<open>repository.html_url\<close> or without
  \<open>pull_request.head.ref\<close> the constructor itself ends with the error of the failed
  subscript, which is not caught. With both, construction succeeds whatever else is
  missing, and a missing \<open>pull_request.html_url\<close>, \<open>comments_url\<close>, \<open>head.sha\<close> or
  \<open>review_comments_url\<close> raises only in \<open>get_review_link\<close>, in \<open>report_result\<close>, and
  in \<open>code_report_to_review\<close> once a changed file has a finding, before any request.
\<close>

theorem payload_shape_checked_at_construction_and_at_use:
  assumes "json_loads pl = Inr pj"
  shows "(\<not> has_field pj [''repository'', ''html_url'']
            \<or> \<not> has_field pj [''pull_request'', ''head'', ''ref'']
          \<longrightarrow> (\<exists>e. GithubActionsMainVcs_init json_loads tok pl sent = (Inl e, sent)
                    \<and> subscript_error e))
       \<and> (has_field pj [''repository'', ''html_url'']
            \<and> has_field pj [''pull_request'', ''head'', ''ref'']
          \<longrightarrow> (\<exists>self. GithubActionsMainVcs_init json_loads tok pl sent = (Inr self, sent)
                \<and> payload_json self = pj
                \<and> (\<not> has_field pj [''pull_request'', ''html_url'']
                     \<longrightarrow> get_review_link self = Inl (KeyError ''html_url''))
                \<and> (\<not> has_field pj [''pull_request'', ''comments_url'']
                     \<longrightarrow> report_result make_request self result report_text no_vote sent'
                           = (Inl (KeyError ''comments_url''), sent'))
                \<and> (\<not> has_field pj [''pull_request'', ''head'', ''sha'']
                     \<longrightarrow> (\<exists>(path, issues) \<in> set report.
                             path \<in> set (commit_files show_output) \<and> issues \<noteq> [])
                     \<longrightarrow> code_report_to_review make_request show_output self report sent'
                           = (Inl (KeyError ''sha''), sent'))
                \<and> (\<not> has_field pj [''pull_request'', ''review_comments_url'']
                     \<longrightarrow> (\<exists>(path, issues) \<in> set report.
                             path \<in> set (commit_files show_output) \<and> issues \<noteq> [])
                     \<longrightarrow> (\<exists>e. code_report_to_review make_request show_output self report sent'
                                = (Inl e, sent') \<and> subscript_error e))))"
proof (intro conjI impI)
  assume "\<not> has_field pj [''repository'', ''html_url'']
            \<or> \<not> has_field pj [''pull_request'', ''head'', ''ref'']"
  then show "\<exists>e. GithubActionsMainVcs_init json_loads tok pl sent = (Inl e, sent)
                    \<and> subscript_error e"
    using assms subscripts_error[of pj "[''repository'', ''html_url'']"]
      subscripts_error[of pj "[''pull_request'', ''head'', ''ref'']"]
    unfolding GithubActionsMainVcs_init_def has_field_def
    by (auto split: sum.splits)
next
  assume both: "has_field pj [''repository'', ''html_url'']
            \<and> has_field pj [''pull_request'', ''head'', ''ref'']"
  then obtain r rf where r: "subscripts pj [''repository'', ''html_url''] = Inr r"
    and rf: "subscripts pj [''pull_request'', ''head'', ''ref''] = Inr rf"
    unfolding has_field_def by (auto split: sum.splits)
  define self where "self = \<lparr>settings_token = tok, settings_repo = r, settings_refspec = rf,
                          payload = pl, payload_json = pj\<rparr>"
  have init: "GithubActionsMainVcs_init json_loads tok pl sent = (Inr self, sent)"
    using assms r rf by (simp add: GithubActionsMainVcs_init_def self_def)
  have pj: "payload_json self = pj" by (simp add: self_def)
  have link: "get_review_link self = Inl (KeyError ''html_url'')"
    if "\<not> has_field pj [''pull_request'', ''html_url'']"
    using that both missing_key[of pj "''pull_request''" "''head''" "[''ref'']" "''html_url''"]
    by (simp add: get_review_link_def pj)
  have res: "report_result make_request self result report_text no_vote sent'
                           = (Inl (KeyError ''comments_url''), sent')"
    if "\<not> has_field pj [''pull_request'', ''comments_url'']"
    using that both
      missing_key[of pj "''pull_request''" "''head''" "[''ref'']" "''comments_url''"]
    by (simp add: report_result_def pj)
  have sha: "code_report_to_review make_request show_output self report sent'
                           = (Inl (KeyError ''sha''), sent')"
    if "\<not> has_field pj [''pull_request'', ''head'', ''sha'']"
      and some: "\<exists>(path, issues) \<in> set report.
                   path \<in> set (commit_files show_output) \<and> issues \<noteq> []"
  proof -
    have "subscripts (payload_json self) [''pull_request'', ''head'', ''sha'']
            = Inl (KeyError ''sha'')"
      using that(1) both missing_key3[of pj "''pull_request''" "''head''" "''ref''" "''sha''"]
      by (simp add: pj)
    then have "\<And>path issue. \<exists>e. report_issue make_request self path issue sent'
                                   = (Inl e, sent') \<and> e = KeyError ''sha''"
      by (simp add: report_issue_no_sha)
    from report_items_raises[where P = "\<lambda>e. e = KeyError ''sha''", OF this some]
    show ?thesis by (simp add: code_report_to_review_def)
  qed
  have rcu: "\<exists>e. code_report_to_review make_request show_output self report sent'
                                = (Inl e, sent') \<and> subscript_error e"
    if "\<not> has_field pj [''pull_request'', ''review_comments_url'']"
      and some: "\<exists>(path, issues) \<in> set report.
                   path \<in> set (commit_files show_output) \<and> issues \<noteq> []"
  proof -
    have "\<exists>e. subscripts pj [''pull_request'', ''review_comments_url''] = Inl e"
      using that(1) by (simp add: has_field_def split: sum.splits del: subscripts.simps)
    then obtain e where
      "subscripts (payload_json self) [''pull_request'', ''review_comments_url''] = Inl e"
      unfolding pj by blast
    then have "\<And>path issue. \<exists>e. report_issue make_request self path issue sent'
                                   = (Inl e, sent') \<and> subscript_error e"
      by (rule report_issue_no_url)
    from report_items_raises[where P = subscript_error, OF this some]
    show ?thesis by (simp add: code_report_to_review_def)
  qed
  show "\<exists>self. GithubActionsMainVcs_init json_loads tok pl sent = (Inr self, sent)
                \<and> payload_json self = pj
                \<and> (\<not> has_field pj [''pull_request'', ''html_url'']
                     \<longrightarrow> get_review_link self = Inl (KeyError ''html_url''))
                \<and> (\<not> has_field pj [''pull_request'', ''comments_url'']
                     \<longrightarrow> report_result make_request self result report_text no_vote sent'
                           = (Inl (KeyError ''comments_url''), sent'))
                \<and> (\<not> has_field pj [''pull_request'', ''head'', ''sha'']
                     \<longrightarrow> (\<exists>(path, issues) \<in> set report.
                             path \<in> set (commit_files show_output) \<and> issues \<noteq> [])
                     \<longrightarrow> code_report_to_review make_request show_output self report sent'
                           = (Inl (KeyError ''sha''), sent'))
                \<and> (\<not> has_field pj [''pull_request'', ''review_comments_url'']
                     \<longrightarrow> (\<exists>(path, issues) \<in> set report.
                             path \<in> set (commit_files show_output) \<and> issues \<noteq> [])
                     \<longrightarrow> (\<exists>e. code_report_to_review make_request show_output self report sent'
                                = (Inl e, sent') \<and> subscript_error e))"
    using init pj link res sha rcu by blast
qed

theorem payload_shape_checked_at_construction_and_at_use_witness:
  "GithubActionsMainVcs_init example_loads ''ghs_1'' ''{}'' [] = (Inl (KeyError ''repository''), [])
   \<and> (\<exists>self. GithubActionsMainVcs_init example_loads ''ghs_1'' example_bare_payload []
                 = (Inr self, [])
        \<and> get_review_link self = Inl (KeyError ''html_url'')
        \<and> report_result (\<lambda>r. None) self True None False [] = (Inl (KeyError ''comments_url''), [])
        \<and> code_report_to_review (\<lambda>r. None) example_show_output self example_report []
             = (Inl (KeyError ''sha''), []))"
proof -
  have empty: "example_loads ''{}'' = Inr (JObject [])"
    by (simp add: example_loads_def example_payload_def example_bare_payload_def)
  have "\<exists>e. GithubActionsMainVcs_init example_loads ''ghs_1'' ''{}'' [] = (Inl e, [])"
    using payload_shape_checked_at_construction_and_at_use
            [where json_loads = example_loads and pl = "''{}''" and tok = "''ghs_1''"
               and sent = "[]", OF empty]
    by (auto simp: has_field_def)
  then have first: "GithubActionsMainVcs_init example_loads ''ghs_1'' ''{}'' []
                      = (Inl (KeyError ''repository''), [])"
    by (auto simp: GithubActionsMainVcs_init_def empty)
  have second: "\<exists>self. GithubActionsMainVcs_init example_loads ''ghs_1'' example_bare_payload []
                 = (Inr self, [])
        \<and> get_review_link self = Inl (KeyError ''html_url'')
        \<and> report_result (\<lambda>r. None) self True None False [] = (Inl (KeyError ''comments_url''), [])
        \<and> code_report_to_review (\<lambda>r. None) example_show_output self example_report []
             = (Inl (KeyError ''sha''), [])"
    using payload_shape_checked_at_construction_and_at_use
            [where json_loads = example_loads and pl = example_bare_payload
               and tok = "''ghs_1''" and sent = "[]" and make_request = "\<lambda>r. None"
               and result = True and report_text = None and no_vote = False and sent' = "[]"
               and report = example_report and show_output = example_show_output,
             OF example_loads_bare]
    by (simp add: has_field_def example_bare_json_def example_commit_files example_report_def)
       blast
  show ?thesis using first second by blast
qed

section \<open>Properties of clone URLs\<close>

subsection \<open>Characters\<close>










lemma delim_not_scheme_char: "netloc_delim c \<Longrightarrow> \<not> scheme_char c"
  by (auto simp: netloc_delim_def scheme_char_def)

subsection \<open>Splitting what urlunsplit wrote\<close>


lemma dropWhile_stop:
  "\<forall>x \<in> set xs. P x \<Longrightarrow> ys = [] \<or> \<not> P (hd ys) \<Longrightarrow> dropWhile P (xs @ ys) = ys"
  by (cases ys) (auto simp: dropWhile_append2)




















subsection \<open>What urlsplit returns\<close>







subsection \<open>The token in the authority\<close>














end
